theory Spec2Isabelle
  imports Main "HOL-Library.Sublist"
begin

section \<open>The moderation service: data model of models.py\<close>

text \<open>
  The three SQLAlchemy models of \<^verbatim>\<open>models.py\<close> become records, the rows of the three
  tables become lists in insertion order, and \<^verbatim>\<open>db.session\<close> becomes a pair of table
  sets: what is committed, and what the current transaction sees. Python exceptions are
  values of the type \<open>error\<close>; every operation returns the new state together with
  either the error it raised (\<open>Inl\<close>) or the value it returned (\<open>Inr\<close>). Python's
  integers are \<open>int\<close>, and an argument that may be \<^verbatim>\<open>None\<close> is an \<open>option\<close>.
\<close>

type_synonym datetime = int

type_synonym json = "(string \<times> string) list"

text \<open>\<^verbatim>\<open>ACTION_TYPES\<close>: the closed set of tags of the \<^verbatim>\<open>ChoiceType\<close> column.\<close>

datatype action_type_tag = Ban_account | Hide_message | Ban_game

text \<open>\<^verbatim>\<open>DEFAULT_MODERATION_WARNING_THRESHOLD = 3\<close>: the column default of a new threshold row.\<close>

definition DEFAULT_MODERATION_WARNING_THRESHOLD :: int where
  "DEFAULT_MODERATION_WARNING_THRESHOLD = 3"

text \<open>
  \<^verbatim>\<open>BaseModerationAction\<close>: the columns shared by both ledgers. The primary key
  \<^verbatim>\<open>id\<close> is the field \<open>row_id\<close> (\<open>id\<close> is HOL's identity function). A row is
  the object as Python holds it: \<^verbatim>\<open>reason\<close> is whatever the caller passed, \<^verbatim>\<open>None\<close>
  included, until a commit has accepted the row.
\<close>

record base_moderation_action =
  row_id :: nat
  action_type :: action_type_tag
  moderator_id :: int
  user_id :: int
  created_at :: datetime
  reason :: "string option"
  is_active :: bool
  extra_data :: json

text \<open>\<^verbatim>\<open>ModerationAction\<close> adds the nullable column \<^verbatim>\<open>finish_at\<close>.\<close>

record moderation_action = base_moderation_action +
  finish_at :: "datetime option"

text \<open>\<^verbatim>\<open>ModerationWarning\<close> adds no column: a warning row has no \<^verbatim>\<open>finish_at\<close>.\<close>

type_synonym moderation_warning = base_moderation_action

text \<open>
  \<^verbatim>\<open>ModerationWarningThreshold\<close>; its column \<^verbatim>\<open>value\<close> is the field \<open>threshold_value\<close>.
\<close>

record moderation_warning_threshold =
  threshold_id :: nat
  threshold_action_type :: action_type_tag
  threshold_value :: int

text \<open>
  Exceptions. \<open>AttributeError\<close> (with the attribute's name) and \<open>TypeError\<close> are
  Python's own; \<open>DataError\<close> and \<open>IntegrityError\<close> are what the commit raises when the
  store refuses a row; the others are the kinds the collaborators of the service can
  raise. \<^verbatim>\<open>models.py\<close> defines no exception class and has no \<^verbatim>\<open>raise\<close> of a new
  exception.
\<close>

datatype error =
    AttributeError string
  | TypeError
  | ConfigurationError
  | ValidationError
  | NotFoundError
  | DeliveryError
  | StoreError
  | DataError
  | IntegrityError

text \<open>
  \<^verbatim>\<open>RemoteUser\<close> (of the platform, outside the repository): its \<^verbatim>\<open>id\<close>, and what its
  two delivery methods \<^verbatim>\<open>send_mail\<close> and \<^verbatim>\<open>send_message\<close> do when awaited: deliver
  (\<open>None\<close>) or raise.
\<close>

record remote_user =
  remote_id :: int
  send_mail_raises :: "error option"
  send_message_raises :: "error option"

text \<open>What has been delivered: (recipient, subject, message, sender) and (recipient, message).\<close>

datatype notification =
    Mail int string "string option" string
  | Message int "string option"

record tables =
  actions :: "moderation_action list"
  warnings :: "moderation_warning list"
  thresholds :: "moderation_warning_threshold list"

text \<open>
  The store and the outside world. \<open>committed\<close> is the durable content of the tables,
  \<open>session\<close> is what the open transaction of \<^verbatim>\<open>db.session\<close> sees (the committed rows
  with the pending writes applied), \<open>outbox\<close> is every notification delivered so far.
\<close>

record world =
  committed :: tables
  session :: tables
  outbox :: "notification list"

text \<open>\<^verbatim>\<open>timezone.now()\<close> and \<^verbatim>\<open>settings.DEFAULT_FROM_EMAIL\<close>, read from the environment.\<close>

record env =
  now :: datetime
  default_from_email :: string

section \<open>The transactional store\<close>

text \<open>
  The column declarations of \<^verbatim>\<open>models.py\<close>, on the PostgreSQL store of the settings:
  \<^verbatim>\<open>Integer\<close> columns hold 32-bit signed integers, \<^verbatim>\<open>reason\<close> is \<^verbatim>\<open>String(512)\<close> and
  \<^verbatim>\<open>nullable=False\<close>. \<open>flush_error\<close> is the exception with which the store refuses a
  row: \<open>DataError\<close> for a value that does not fit its column, \<open>IntegrityError\<close> for a
  missing reason; \<open>None\<close> when the row is accepted.
\<close>

definition integer_column :: "int \<Rightarrow> bool" where
  "integer_column v = (- 2147483648 \<le> v \<and> v \<le> 2147483647)"

definition string_512_column :: "string \<Rightarrow> bool" where
  "string_512_column txt = (length txt \<le> 512)"

definition flush_error :: "'a base_moderation_action_scheme \<Rightarrow> error option" where
  "flush_error r =
     (if integer_column (int (row_id r)) \<and> integer_column (moderator_id r) \<and>
         integer_column (user_id r)
      then (case reason r of
              None \<Rightarrow> Some IntegrityError
            | Some txt \<Rightarrow> if string_512_column txt then None else Some DataError)
      else Some DataError)"

text \<open>
  Modelled from the spec: \<^verbatim>\<open>db.session\<close> belongs to the framework, whose sources are not
  in the repository. It is the transactional store of the spec's section 6 (insert,
  query by equality, count, commit, rollback). \<^verbatim>\<open>commit\<close> makes what the transaction
  sees durable, unless the store refuses one of its rows: then it raises that row's
  exception, nothing becomes durable and the pending writes stay pending. \<^verbatim>\<open>rollback\<close>
  discards every pending write.
\<close>

definition session_commit :: "world \<Rightarrow> world \<times> (error + unit)" where
  "session_commit s =
     (case List.map_filter flush_error (actions (session s)) @
           List.map_filter flush_error (warnings (session s)) of
        [] \<Rightarrow> (s\<lparr>committed := session s\<rparr>, Inr ())
      | err # _ \<Rightarrow> (s, Inl err))"

definition session_rollback :: "world \<Rightarrow> world" where
  "session_rollback s = s\<lparr>session := committed s\<rparr>"

text \<open>\<^verbatim>\<open>autoincrement=True\<close>: a new row gets a key above every key of its table.\<close>

definition next_id :: "('a base_moderation_action_scheme) list \<Rightarrow> nat" where
  "next_id rows = Suc (fold max (map row_id rows) 0)"

text \<open>
  \<^verbatim>\<open>obj = cls(**data)\<close> for \<^verbatim>\<open>cls = ModerationAction\<close>, as the row the transaction inserts
  for it: the keyword arguments of \<^verbatim>\<open>data\<close>, and the column defaults for what \<^verbatim>\<open>data\<close>
  leaves out or gives as \<^verbatim>\<open>None\<close> (\<^verbatim>\<open>id\<close>, \<^verbatim>\<open>created_at = timezone.now\<close>,
  \<^verbatim>\<open>is_active = True\<close>, \<^verbatim>\<open>extra_data = {}\<close>).
\<close>

definition new_action ::
  "env \<Rightarrow> nat \<Rightarrow> action_type_tag \<Rightarrow> string option \<Rightarrow> int \<Rightarrow> int \<Rightarrow> datetime option
    \<Rightarrow> json option \<Rightarrow> moderation_action" where
  "new_action e k a_type rsn m_id u_id fin extra =
     \<lparr>row_id = k, action_type = a_type, moderator_id = m_id, user_id = u_id,
      created_at = now e, reason = rsn, is_active = True,
      extra_data = (case extra of None \<Rightarrow> [] | Some d \<Rightarrow> d),
      finish_at = fin\<rparr>"

text \<open>The same for \<^verbatim>\<open>cls = ModerationWarning\<close>, whose \<^verbatim>\<open>data\<close> has no \<^verbatim>\<open>finish_at\<close>.\<close>

definition new_warning ::
  "env \<Rightarrow> nat \<Rightarrow> action_type_tag \<Rightarrow> string option \<Rightarrow> int \<Rightarrow> int \<Rightarrow> json option
    \<Rightarrow> moderation_warning" where
  "new_warning e k a_type rsn m_id u_id extra =
     \<lparr>row_id = k, action_type = a_type, moderator_id = m_id, user_id = u_id,
      created_at = now e, reason = rsn, is_active = True,
      extra_data = (case extra of None \<Rightarrow> [] | Some d \<Rightarrow> d)\<rparr>"

text \<open>\<^verbatim>\<open>db.session.add(obj)\<close>: the row is pending in the transaction, not yet durable.\<close>

definition session_add_action :: "moderation_action \<Rightarrow> world \<Rightarrow> world" where
  "session_add_action obj s = s\<lparr>session := (session s)\<lparr>actions := actions (session s) @ [obj]\<rparr>\<rparr>"

definition session_add_warning :: "moderation_warning \<Rightarrow> world \<Rightarrow> world" where
  "session_add_warning obj s = s\<lparr>session := (session s)\<lparr>warnings := warnings (session s) @ [obj]\<rparr>\<rparr>"

section \<open>BaseModerationAction\<close>

text \<open>
  \<^verbatim>\<open>turn_on\<close> and \<^verbatim>\<open>turn_off\<close> on the object itself: the one assignment to
  \<^verbatim>\<open>self.is_active\<close>.
\<close>

definition turn_on :: "'a base_moderation_action_scheme \<Rightarrow> 'a base_moderation_action_scheme" where
  "turn_on self = self\<lparr>is_active := True\<rparr>"

definition turn_off :: "'a base_moderation_action_scheme \<Rightarrow> 'a base_moderation_action_scheme" where
  "turn_off self = self\<lparr>is_active := False\<rparr>"

text \<open>
  Modelled from the spec: \<^verbatim>\<open>self.save(commit)\<close> is the framework's; the spec gives it as
  an optional immediate commit of the session.
\<close>

definition save :: "bool \<Rightarrow> world \<Rightarrow> world \<times> (error + unit)" where
  "save commit s = (if commit then session_commit s else (s, Inr ()))"

text \<open>
  A call \<^verbatim>\<open>obj.turn_on(commit)\<close> or \<^verbatim>\<open>obj.turn_off(commit)\<close> where \<^verbatim>\<open>obj\<close> is the \<open>i\<close>-th
  object of a ledger in the session: the method body runs on that object, then \<open>save\<close>,
  whose exception, if any, is the call's.
\<close>

datatype toggle = Turn_on bool | Turn_off bool

fun toggle_self :: "toggle \<Rightarrow> 'a base_moderation_action_scheme \<Rightarrow> 'a base_moderation_action_scheme" where
  "toggle_self (Turn_on commit) self = turn_on self"
| "toggle_self (Turn_off commit) self = turn_off self"

fun toggle_commit :: "toggle \<Rightarrow> bool" where
  "toggle_commit (Turn_on commit) = commit"
| "toggle_commit (Turn_off commit) = commit"

definition call_on_action :: "nat \<Rightarrow> toggle \<Rightarrow> world \<Rightarrow> world \<times> (error + unit)" where
  "call_on_action i t s =
     save (toggle_commit t)
       (s\<lparr>session := (session s)\<lparr>actions :=
            (actions (session s))[i := toggle_self t (actions (session s) ! i)]\<rparr>\<rparr>)"

definition call_on_warning :: "nat \<Rightarrow> toggle \<Rightarrow> world \<Rightarrow> world \<times> (error + unit)" where
  "call_on_warning i t s =
     save (toggle_commit t)
       (s\<lparr>session := (session s)\<lparr>warnings :=
            (warnings (session s))[i := toggle_self t (warnings (session s) ! i)]\<rparr>\<rparr>)"

text \<open>
  A sequence of such calls on the same object, in order; the caller goes on after a call
  that raised (a caller that stops there has made the shorter sequence).
\<close>

fun calls_on_action :: "nat \<Rightarrow> toggle list \<Rightarrow> world \<Rightarrow> world" where
  "calls_on_action i [] s = s"
| "calls_on_action i (t # ts) s = calls_on_action i ts (fst (call_on_action i t s))"

fun calls_on_warning :: "nat \<Rightarrow> toggle list \<Rightarrow> world \<Rightarrow> world" where
  "calls_on_warning i [] s = s"
| "calls_on_warning i (t # ts) s = calls_on_warning i ts (fst (call_on_warning i t s))"

text \<open>The hybrid property \<^verbatim>\<open>active\<close> of the base class: \<^verbatim>\<open>return self.is_active\<close>.\<close>

definition base_active :: "'a base_moderation_action_scheme \<Rightarrow> bool" where
  "base_active self = is_active self"

text \<open>
  The Python objects that the attribute chains of \<^verbatim>\<open>warn\<close> pass through. Python
  resolves an attribute on whatever object it is given, so the model does the same:
  \<^item> \<open>Query rows\<close>: a \<^verbatim>\<open>db.Query\<close> that selects \<open>rows\<close>;
  \<^item> \<open>Coroutine v\<close>: what calling an \<^verbatim>\<open>async def\<close> returns; only \<^verbatim>\<open>await\<close> yields \<open>v\<close>;
  \<^item> \<open>PropertyObject\<close>: a \<^verbatim>\<open>@property\<close> read on the class, not on an instance;
  \<^item> \<open>ModelClass\<close>: a model class, which has \<^verbatim>\<open>.query\<close>;
  \<^item> \<open>RowObject r\<close>, \<open>NoneObject\<close>, \<open>IntObject n\<close>: a row, \<^verbatim>\<open>None\<close>, an integer.
\<close>

datatype 'r pyobj =
    Query "'r list"
  | Coroutine "'r pyobj"
  | PropertyObject
  | ModelClass
  | RowObject 'r
  | NoneObject
  | IntObject nat

text \<open>\<^verbatim>\<open>await x\<close>: the result of a coroutine; any other object here is not awaitable.\<close>

fun await :: "'r pyobj \<Rightarrow> error + 'r pyobj" where
  "await (Coroutine v) = Inr v"
| "await _ = Inl TypeError"

text \<open>\<^verbatim>\<open>x.count()\<close>: a method of a query only.\<close>

fun query_count :: "'r pyobj \<Rightarrow> error + 'r pyobj" where
  "query_count (Query rows) = Inr (IntObject (length rows))"
| "query_count _ = Inl (AttributeError ''count'')"

text \<open>\<^verbatim>\<open>x.query\<close>: an attribute of a model class, selecting the rows of its table.\<close>

fun getattr_query :: "'r list \<Rightarrow> 'r pyobj \<Rightarrow> error + 'r pyobj" where
  "getattr_query table ModelClass = Inr (Query table)"
| "getattr_query table _ = Inl (AttributeError ''query'')"

text \<open>\<^verbatim>\<open>x.filter_by(...)\<close> and \<^verbatim>\<open>x.first()\<close>: methods of a query only.\<close>

fun query_filter_by :: "('r \<Rightarrow> bool) \<Rightarrow> 'r pyobj \<Rightarrow> error + 'r pyobj" where
  "query_filter_by p (Query rows) = Inr (Query (filter p rows))"
| "query_filter_by p _ = Inl (AttributeError ''filter_by'')"

fun query_first :: "'r pyobj \<Rightarrow> error + 'r pyobj" where
  "query_first (Query []) = Inr NoneObject"
| "query_first (Query (r # rows)) = Inr (RowObject r)"
| "query_first _ = Inl (AttributeError ''first'')"

text \<open>\<^verbatim>\<open>threshold.value\<close>: a column of a threshold row; \<^verbatim>\<open>None\<close> has no attributes.\<close>

fun getattr_value :: "moderation_warning_threshold pyobj \<Rightarrow> error + int" where
  "getattr_value (RowObject r) = Inr (threshold_value r)"
| "getattr_value _ = Inl (AttributeError ''value'')"

text \<open>
  \<^verbatim>\<open>actions_query(cls, user_id, **filters)\<close> for \<^verbatim>\<open>cls = ModerationWarning\<close>, whose
  \<^verbatim>\<open>active\<close> is the base class's. It is an \<^verbatim>\<open>async def\<close>: the call returns a coroutine
  whose result is the query \<^verbatim>\<open>cls.query.filter_by(active=True, user_id=user_id, **filters)\<close>
  over the rows the transaction sees.
\<close>

definition actions_query ::
  "int \<Rightarrow> (moderation_warning \<Rightarrow> bool) \<Rightarrow> world \<Rightarrow> moderation_warning pyobj" where
  "actions_query u_id filters s =
     Coroutine (Query (filter (\<lambda>w. base_active w = True \<and> user_id w = u_id \<and> filters w)
                        (warnings (session s))))"

text \<open>
  The static methods \<^verbatim>\<open>send_email\<close> and \<^verbatim>\<open>send_message\<close>: they await the user's
  delivery method and swallow nothing (\<^verbatim>\<open>fail_silently=False\<close> at every call site).
\<close>

definition send_email ::
  "remote_user \<Rightarrow> string \<Rightarrow> string option \<Rightarrow> string \<Rightarrow> world \<Rightarrow> world \<times> (error + unit)" where
  "send_email user subject message from_email s =
     (case send_mail_raises user of
        Some e \<Rightarrow> (s, Inl e)
      | None \<Rightarrow> (s\<lparr>outbox := outbox s @ [Mail (remote_id user) subject message from_email]\<rparr>,
                 Inr ()))"

definition send_message ::
  "remote_user \<Rightarrow> string option \<Rightarrow> world \<Rightarrow> world \<times> (error + unit)" where
  "send_message user message s =
     (case send_message_raises user of
        Some e \<Rightarrow> (s, Inl e)
      | None \<Rightarrow> (s\<lparr>outbox := outbox s @ [Message (remote_id user) message]\<rparr>, Inr ()))"

section \<open>ModerationAction\<close>

definition time_limited :: "moderation_action \<Rightarrow> bool" where
  "time_limited self = (finish_at self \<noteq> None)"

definition finish_in :: "env \<Rightarrow> moderation_action \<Rightarrow> int option" where
  "finish_in e self =
     (if time_limited self then Some (the (finish_at self) - now e) else None)"

text \<open>
  \<^verbatim>\<open>finished\<close>: \<^verbatim>\<open>if self.time_limited: return self.finish_at <= timezone.now()\<close>,
  and then \<^verbatim>\<open>return True\<close>.
\<close>

definition finished :: "env \<Rightarrow> moderation_action \<Rightarrow> bool" where
  "finished e self =
     (if time_limited self then the (finish_at self) \<le> now e else True)"

text \<open>\<^verbatim>\<open>active\<close> of \<^verbatim>\<open>ModerationAction\<close>: \<^verbatim>\<open>self.is_active and not self.finished\<close>.\<close>

definition active :: "env \<Rightarrow> moderation_action \<Rightarrow> bool" where
  "active e self = (is_active self \<and> \<not> finished e self)"

text \<open>
  \<^verbatim>\<open>moderate\<close>. The row is added to the session and, when \<^verbatim>\<open>commit\<close> is true, committed;
  only then the two notifications are sent. There is no \<^verbatim>\<open>try\<close> and no \<^verbatim>\<open>return\<close>
  statement: an exception of the commit or of a send ends the call and leaves the state
  as it is at that point, and a completed call returns Python's \<^verbatim>\<open>None\<close>
  (\<open>Inr None\<close>).
\<close>

definition moderate ::
  "env \<Rightarrow> action_type_tag \<Rightarrow> string option \<Rightarrow> remote_user \<Rightarrow> remote_user \<Rightarrow> json option
    \<Rightarrow> datetime option \<Rightarrow> bool \<Rightarrow> world \<Rightarrow> world \<times> (error + moderation_action option)" where
  "moderate e a_type rsn moderator user extra fin commit s =
     (let obj = new_action e (next_id (actions (session s))) a_type rsn
                  (remote_id moderator) (remote_id user) fin extra;
          s1 = session_add_action obj s
      in case (if commit then session_commit s1 else (s1, Inr ())) of
           (s2, Inl err) \<Rightarrow> (s2, Inl err)
         | (s2, Inr _) \<Rightarrow>
             (case send_email user ''You are moderated'' rsn (default_from_email e) s2 of
                (s3, Inl err) \<Rightarrow> (s3, Inl err)
              | (s3, Inr _) \<Rightarrow>
                  (case send_message user rsn s3 of
                     (s4, Inl err) \<Rightarrow> (s4, Inl err)
                   | (s4, Inr _) \<Rightarrow> (s4, Inr None))))"

section \<open>ModerationWarning\<close>

text \<open>
  The class statements of \<^verbatim>\<open>models.py\<close>: the names each class body binds and its base
  class in the repository. \<^verbatim>\<open>cls.name\<close> finds a name bound by the class or by a base.
  (The framework's bases \<^verbatim>\<open>InternalAPIMixin\<close> and \<^verbatim>\<open>db.Model\<close> bind none of the names
  looked up below.)
\<close>

datatype model_class = BaseModerationAction | ModerationAction | ModerationWarning

fun class_body :: "model_class \<Rightarrow> string list" where
  "class_body BaseModerationAction =
     [''id'', ''action_type'', ''moderator_id'', ''user_id'', ''created_at'', ''reason'',
      ''is_active'', ''extra_data'', ''request_user'', ''get_user'', ''get_moderator'',
      ''turn_on'', ''turn_off'', ''active'', ''actions_query'', ''send_email'',
      ''send_message'']"
| "class_body ModerationAction =
     [''finish_at'', ''time_limited'', ''finish_in'', ''finished'', ''active'', ''moderate'']"
| "class_body ModerationWarning = [''threshold_model'', ''warn'']"

fun class_mro :: "model_class \<Rightarrow> model_class list" where
  "class_mro BaseModerationAction = [BaseModerationAction]"
| "class_mro ModerationAction = [ModerationAction, BaseModerationAction]"
| "class_mro ModerationWarning = [ModerationWarning, BaseModerationAction]"

definition class_hasattr :: "model_class \<Rightarrow> string \<Rightarrow> bool" where
  "class_hasattr cls name = (name \<in> set (concat (map class_body (class_mro cls))))"

text \<open>
  \<^verbatim>\<open>threshold_model\<close> is a \<^verbatim>\<open>@property\<close>: on an instance it returns the class
  \<^verbatim>\<open>ModerationWarningThreshold\<close>; read on the class, as \<^verbatim>\<open>warn\<close> does with
  \<^verbatim>\<open>cls.threshold_model\<close>, it is the property object itself.
\<close>

definition threshold_model :: "moderation_warning_threshold pyobj" where
  "threshold_model = ModelClass"

definition cls_threshold_model :: "moderation_warning_threshold pyobj" where
  "cls_threshold_model = PropertyObject"

text \<open>The keyword filter \<^verbatim>\<open>action_type=action_type\<close> of line 161.\<close>

definition by_action_type :: "action_type_tag \<Rightarrow> moderation_warning \<Rightarrow> bool" where
  "by_action_type a_type w = (action_type w = a_type)"

text \<open>
  Line 161: \<^verbatim>\<open>await cls.actions_query(user.id, action_type=action_type).count()\<close>.
  \<^verbatim>\<open>await\<close> applies to the whole primary expression: \<^verbatim>\<open>.count()\<close> is looked up on
  what the call of \<^verbatim>\<open>actions_query\<close> returns, and the result of that is awaited.
\<close>

definition warns_count_of ::
  "remote_user \<Rightarrow> action_type_tag \<Rightarrow> world \<Rightarrow> error + moderation_warning pyobj" where
  "warns_count_of user a_type s =
     (case query_count (actions_query (remote_id user) (by_action_type a_type) s) of
        Inl err \<Rightarrow> Inl err
      | Inr c \<Rightarrow> await c)"

text \<open>
  Line 162:
  \<^verbatim>\<open>cls.threshold_model.query.filter_by(action_type=action_type).first()\<close>.
\<close>

definition threshold_of ::
  "action_type_tag \<Rightarrow> world \<Rightarrow> error + moderation_warning_threshold pyobj" where
  "threshold_of a_type s =
     (case getattr_query (thresholds (session s)) cls_threshold_model of
        Inl err \<Rightarrow> Inl err
      | Inr q \<Rightarrow>
          (case query_filter_by (\<lambda>t. threshold_action_type t = a_type) q of
             Inl err \<Rightarrow> Inl err
           | Inr q' \<Rightarrow> query_first q'))"

text \<open>
  Lines 167 to 175, the \<^verbatim>\<open>else\<close> branch: the "You are warned" mail, then the message.
\<close>

definition notify_warned ::
  "env \<Rightarrow> remote_user \<Rightarrow> string option \<Rightarrow> world \<Rightarrow> world \<times> (error + unit)" where
  "notify_warned e user rsn s =
     (case send_email user ''You are warned'' rsn (default_from_email e) s of
        (s1, Inl err) \<Rightarrow> (s1, Inl err)
      | (s1, Inr _) \<Rightarrow> send_message user rsn s1)"

text \<open>
  Lines 164 and 165, the escalation:
  \<^verbatim>\<open>await cls.moderate(action_type, reason, moderator, user, extra_data, finish_at, commit=False)\<close>
  with \<^verbatim>\<open>cls\<close> the class \<^verbatim>\<open>warn\<close> was called on.
\<close>

definition escalate ::
  "env \<Rightarrow> model_class \<Rightarrow> action_type_tag \<Rightarrow> string option \<Rightarrow> remote_user \<Rightarrow> remote_user
    \<Rightarrow> json option \<Rightarrow> datetime option \<Rightarrow> world \<Rightarrow> world \<times> (error + unit)" where
  "escalate e cls a_type rsn moderator user extra fin s =
     (if class_hasattr cls ''moderate''
      then (case moderate e a_type rsn moderator user extra fin False s of
              (s1, Inl err) \<Rightarrow> (s1, Inl err)
            | (s1, Inr _) \<Rightarrow> (s1, Inr ()))
      else (s, Inl (AttributeError ''moderate'')))"

text \<open>
  Lines 163 to 175: \<^verbatim>\<open>if warns_count >= threshold.value:\<close> escalate, \<^verbatim>\<open>else:\<close> notify.
\<close>

definition warn_decide ::
  "env \<Rightarrow> model_class \<Rightarrow> action_type_tag \<Rightarrow> string option \<Rightarrow> remote_user \<Rightarrow> remote_user
    \<Rightarrow> datetime option \<Rightarrow> json option \<Rightarrow> nat \<Rightarrow> int \<Rightarrow> world \<Rightarrow> world \<times> (error + unit)" where
  "warn_decide e cls a_type rsn moderator user fin extra warns_count threshold s =
     (if int warns_count \<ge> threshold
      then escalate e cls a_type rsn moderator user extra fin s
      else notify_warned e user rsn s)"

text \<open>
  Lines 161 to 175, the body of the \<^verbatim>\<open>try\<close> before its \<^verbatim>\<open>commit\<close>. Each step that raises
  ends the body with that exception.
\<close>

definition warn_try ::
  "env \<Rightarrow> model_class \<Rightarrow> action_type_tag \<Rightarrow> string option \<Rightarrow> remote_user \<Rightarrow> remote_user
    \<Rightarrow> datetime option \<Rightarrow> json option \<Rightarrow> world \<Rightarrow> world \<times> (error + unit)" where
  "warn_try e cls a_type rsn moderator user fin extra s =
     (case warns_count_of user a_type s of
        Inl err \<Rightarrow> (s, Inl err)
      | Inr (IntObject warns_count) \<Rightarrow>
          (case threshold_of a_type s of
             Inl err \<Rightarrow> (s, Inl err)
           | Inr threshold \<Rightarrow>
               (case getattr_value threshold of
                  Inl err \<Rightarrow> (s, Inl err)
                | Inr v \<Rightarrow> warn_decide e cls a_type rsn moderator user fin extra warns_count v s))
      | Inr _ \<Rightarrow> (s, Inl TypeError))"

text \<open>
  \<^verbatim>\<open>warn\<close>, called as \<^verbatim>\<open>ModerationWarning.warn(...)\<close>, so \<^verbatim>\<open>cls\<close> is
  \<^verbatim>\<open>ModerationWarning\<close>. The warning is added to the session first; the \<^verbatim>\<open>try\<close> runs the
  body and commits; \<^verbatim>\<open>except Exception\<close>, for an exception of the body or of the commit,
  rolls the session back and raises the same exception again. The call has no
  \<^verbatim>\<open>return\<close> statement.
\<close>

definition warn ::
  "env \<Rightarrow> action_type_tag \<Rightarrow> string option \<Rightarrow> remote_user \<Rightarrow> remote_user \<Rightarrow> datetime option
    \<Rightarrow> json option \<Rightarrow> world \<Rightarrow> world \<times> (error + unit)" where
  "warn e a_type rsn moderator user fin extra s =
     (let obj = new_warning e (next_id (warnings (session s))) a_type rsn
                  (remote_id moderator) (remote_id user) extra;
          s1 = session_add_warning obj s
      in case warn_try e ModerationWarning a_type rsn moderator user fin extra s1 of
           (s2, Inl err) \<Rightarrow> (session_rollback s2, Inl err)
         | (s2, Inr _) \<Rightarrow>
             (case session_commit s2 of
                (s3, Inl err) \<Rightarrow> (session_rollback s3, Inl err)
              | (s3, Inr _) \<Rightarrow> (s3, Inr ())))"

section \<open>Example inputs\<close>

text \<open>
  Concrete inputs for the evaluations below: a clock, a moderator, a user whose
  deliveries succeed, the same user with a failing mail delivery, an empty store, a
  store where the threshold of \<open>Ban_game\<close> is 3 and user 7 has two active warnings
  of that type, and that store with a third warning of user 7 added to the session.
\<close>

definition ex_env :: env where
  "ex_env = \<lparr>now = 1000, default_from_email = ''noreply@example.org''\<rparr>"

definition ex_moderator :: remote_user where
  "ex_moderator = \<lparr>remote_id = 1, send_mail_raises = None, send_message_raises = None\<rparr>"

definition ex_user :: remote_user where
  "ex_user = \<lparr>remote_id = 7, send_mail_raises = None, send_message_raises = None\<rparr>"


definition ex_no_rows :: tables where
  "ex_no_rows = \<lparr>actions = [], warnings = [], thresholds = []\<rparr>"

definition ex_empty_world :: world where
  "ex_empty_world = \<lparr>committed = ex_no_rows, session = ex_no_rows, outbox = []\<rparr>"

definition ex_warning :: "nat \<Rightarrow> moderation_warning" where
  "ex_warning k =
     \<lparr>row_id = k, action_type = Ban_game, moderator_id = 1, user_id = 7, created_at = 900,
      reason = Some ''cheating'', is_active = True, extra_data = []\<rparr>"

definition ex_warned_rows :: tables where
  "ex_warned_rows =
     \<lparr>actions = [], warnings = [ex_warning 1, ex_warning 2],
      thresholds = [\<lparr>threshold_id = 1, threshold_action_type = Ban_game, threshold_value = 3\<rparr>]\<rparr>"

definition ex_warned_world :: world where
  "ex_warned_world = \<lparr>committed = ex_warned_rows, session = ex_warned_rows, outbox = []\<rparr>"


section \<open>Time-limited actions\<close>

text \<open>
  C1. The spec has \<open>finished\<close> false for an action without \<^verbatim>\<open>finish_at\<close>. The property
  \<^verbatim>\<open>finished\<close> of the code ends in \<^verbatim>\<open>return True\<close>: an action without \<^verbatim>\<open>finish_at\<close>
  is finished at every time, and so it is never active, even with \<^verbatim>\<open>is_active\<close> true.
\<close>

theorem finished_without_finish_at:
  "finished e (a\<lparr>finish_at := None\<rparr>) = True \<and>
   active e (a\<lparr>finish_at := None, is_active := True\<rparr>) = False"
  by (simp add: finished_def active_def time_limited_def)

section \<open>What the operations leave untouched\<close>

text \<open>
  A commit either makes the session durable or raises and changes nothing; a row that
  the store refuses makes the commit raise.
\<close>

lemma session_commit_cases:
  "session_commit s = (s\<lparr>committed := session s\<rparr>, Inr ()) \<or> (\<exists>err. session_commit s = (s, Inl err))"
  by (simp add: session_commit_def split: list.split)

lemma session_commit_frame:
  "session (fst (session_commit s)) = session s"
  "outbox (fst (session_commit s)) = outbox s"
  using session_commit_cases [of s] by auto

lemma session_commit_raises:
  "session_commit s = (s', Inl err) \<Longrightarrow> s' = s"
  using session_commit_cases [of s] by auto

lemma session_commit_completes:
  "session_commit s = (s', Inr v) \<Longrightarrow> s' = s\<lparr>committed := session s\<rparr>"
  using session_commit_cases [of s] by auto

lemma refused_row_fails_commit:
  assumes "flush_error obj = Some err0"
  shows "\<exists>err. session_commit (session_add_action obj s) = (session_add_action obj s, Inl err)"
proof -
  have "List.map_filter flush_error (actions (session (session_add_action obj s))) \<noteq> []"
    using assms by (simp add: session_add_action_def List.map_filter_def)
  then show ?thesis
    by (simp add: session_commit_def split: list.split)
qed

text \<open>
  The notification helpers write to the outbox only; \<open>moderate\<close> without commit, the
  escalation and the whole body of the \<^verbatim>\<open>try\<close> leave the committed tables and the
  warnings in the session as they are.
\<close>

lemma send_email_frame:
  "committed (fst (send_email u sub msg f s)) = committed s"
  "session (fst (send_email u sub msg f s)) = session s"
  by (simp_all add: send_email_def split: option.split)

lemma send_message_frame:
  "committed (fst (send_message u msg s)) = committed s"
  "session (fst (send_message u msg s)) = session s"
  by (simp_all add: send_message_def split: option.split)

lemma notify_warned_frame:
  "committed (fst (notify_warned e u rsn s)) = committed s"
  "session (fst (notify_warned e u rsn s)) = session s"
  by (simp_all add: notify_warned_def send_email_def send_message_def split: option.split)

lemma moderate_pending_frame:
  "committed (fst (moderate e T rsn m u x f False s)) = committed s"
  "warnings (session (fst (moderate e T rsn m u x f False s))) = warnings (session s)"
  "thresholds (session (fst (moderate e T rsn m u x f False s))) = thresholds (session s)"
  by (simp_all add: moderate_def Let_def send_email_def send_message_def
        session_add_action_def split: option.split)

lemma escalate_frame:
  "committed (fst (escalate e cls T rsn m u x f s)) = committed s"
  "warnings (session (fst (escalate e cls T rsn m u x f s))) = warnings (session s)"
  "thresholds (session (fst (escalate e cls T rsn m u x f s))) = thresholds (session s)"
  using moderate_pending_frame [of e T rsn m u x f s]
  by (auto simp: escalate_def split: prod.split sum.split)

lemma warn_decide_frame:
  "committed (fst (warn_decide e cls T rsn m u f x n t s)) = committed s"
  "warnings (session (fst (warn_decide e cls T rsn m u f x n t s))) = warnings (session s)"
  by (simp_all add: warn_decide_def escalate_frame notify_warned_frame)

lemma warn_try_frame:
  "committed (fst (warn_try e cls T rsn m u f x s)) = committed s"
  "warnings (session (fst (warn_try e cls T rsn m u f x s))) = warnings (session s)"
  by (simp_all add: warn_try_def warn_decide_frame split: sum.split pyobj.split)


lemma moderate_completes:
  "moderate e T rsn m u x f c s = (s', Inr r) \<Longrightarrow>
     r = None \<and>
     outbox s' = outbox s @ [Mail (remote_id u) ''You are moderated'' rsn (default_from_email e),
                             Message (remote_id u) rsn] \<and>
     session s' = session (session_add_action
        (new_action e (next_id (actions (session s))) T rsn (remote_id m) (remote_id u) f x) s) \<and>
     committed s' = (if c then session s' else committed s)"
proof -
  let ?s1 = "session_add_action
        (new_action e (next_id (actions (session s))) T rsn (remote_id m) (remote_id u) f x) s"
  assume a: "moderate e T rsn m u x f c s = (s', Inr r)"
  show ?thesis
  proof (cases c)
    case False
    then show ?thesis
      using a
      by (auto simp: moderate_def Let_def send_email_def send_message_def session_add_action_def
            split: option.splits)
  next
    case True
    from session_commit_cases [of ?s1] show ?thesis
    proof
      assume "session_commit ?s1 = (?s1\<lparr>committed := session ?s1\<rparr>, Inr ())"
      then show ?thesis
        using a True
        by (auto simp: moderate_def Let_def send_email_def send_message_def session_add_action_def
              split: option.splits)
    next
      assume "\<exists>err. session_commit ?s1 = (?s1, Inl err)"
      then show ?thesis
        using a True by (auto simp: moderate_def Let_def)
    qed
  qed
qed




text \<open>
  The attribute lookups of \<^verbatim>\<open>warn\<close> as Python resolves them. \<^verbatim>\<open>.count\<close> is looked up
  on the coroutine that \<^verbatim>\<open>actions_query\<close> returns, so the first statement of the
  \<^verbatim>\<open>try\<close> raises; and \<^verbatim>\<open>moderate\<close> is bound by \<^verbatim>\<open>ModerationAction\<close> only, not by
  \<^verbatim>\<open>ModerationWarning\<close> or its base.
\<close>

lemma warn_try_raises_at_count:
  "warn_try e cls T rsn m u f x s = (s, Inl (AttributeError ''count''))"
  by (simp add: warn_try_def warns_count_of_def actions_query_def)

lemma warn_as_written:
  "warn e T rsn m u fin x s = (session_rollback s, Inl (AttributeError ''count''))"
  by (simp add: warn_def Let_def warn_try_raises_at_count session_rollback_def
        session_add_warning_def)

lemma escalate_from_warning_class:
  "escalate e ModerationWarning T rsn m u x fin s = (s, Inl (AttributeError ''moderate''))"
  by (simp add: escalate_def class_hasattr_def)



text \<open>
  The example calls of \<open>moderate\<close> on the empty store, and the example store with two
  warnings before and after a third is added.
\<close>

lemma ex_moderate_completes:
  "moderate ex_env Ban_game (Some ''cheating'') ex_moderator ex_user None None True ex_empty_world
     = (\<lparr>committed =
           \<lparr>actions = [new_action ex_env 1 Ban_game (Some ''cheating'') 1 7 None None],
            warnings = [], thresholds = []\<rparr>,
         session =
           \<lparr>actions = [new_action ex_env 1 Ban_game (Some ''cheating'') 1 7 None None],
            warnings = [], thresholds = []\<rparr>,
         outbox = [Mail 7 ''You are moderated'' (Some ''cheating'') ''noreply@example.org'',
                   Message 7 (Some ''cheating'')]\<rparr>, Inr None)"
  by (simp add: moderate_def Let_def send_email_def send_message_def session_add_action_def
        session_commit_def List.map_filter_def flush_error_def integer_column_def
        string_512_column_def new_action_def next_id_def ex_empty_world_def ex_no_rows_def
        ex_user_def ex_moderator_def ex_env_def)

lemma ex_moderate_empty_reason:
  "moderate ex_env Ban_game (Some []) ex_moderator ex_user None None True ex_empty_world
     = (\<lparr>committed =
           \<lparr>actions = [new_action ex_env 1 Ban_game (Some []) 1 7 None None],
            warnings = [], thresholds = []\<rparr>,
         session =
           \<lparr>actions = [new_action ex_env 1 Ban_game (Some []) 1 7 None None],
            warnings = [], thresholds = []\<rparr>,
         outbox = [Mail 7 ''You are moderated'' (Some []) ''noreply@example.org'',
                   Message 7 (Some [])]\<rparr>, Inr None)"
  by (simp add: moderate_def Let_def send_email_def send_message_def session_add_action_def
        session_commit_def List.map_filter_def flush_error_def integer_column_def
        string_512_column_def new_action_def next_id_def ex_empty_world_def ex_no_rows_def
        ex_user_def ex_moderator_def ex_env_def)



section \<open>Atomicity of moderate and warn\<close>



text \<open>
  C4. If a step of the \<^verbatim>\<open>try\<close> body of \<open>warn\<close> (counting, threshold lookup,
  escalation, notification) raises an exception, \<open>warn\<close> raises that same exception,
  the committed tables are those before the call, and the session holds nothing but
  the committed tables: the staged warning and a staged action are gone.
\<close>

theorem warn_exception_rolls_back:
  assumes "warn_try e ModerationWarning T rsn m u fin x
             (session_add_warning
                (new_warning e (next_id (warnings (session s))) T rsn (remote_id m) (remote_id u) x) s)
           = (s2, Inl err)"
  shows "snd (warn e T rsn m u fin x s) = Inl err \<and>
         committed (fst (warn e T rsn m u fin x s)) = committed s \<and>
         session (fst (warn e T rsn m u fin x s)) = committed s"
proof -
  let ?s1 = "session_add_warning
                (new_warning e (next_id (warnings (session s))) T rsn (remote_id m) (remote_id u) x) s"
  have w: "warn e T rsn m u fin x s = (session_rollback s2, Inl err)"
    using assms by (simp add: warn_def Let_def)
  have "committed s2 = committed ?s1"
    using warn_try_frame(1) [of e ModerationWarning T rsn m u fin x ?s1] assms by simp
  then have c: "committed s2 = committed s"
    by (simp add: session_add_warning_def)
  show ?thesis
    using w c by (simp add: session_rollback_def)
qed

text \<open>
  An instance of C4: a call of \<open>warn\<close> on the store with two warnings.
\<close>

theorem warn_exception_rolls_back_witness:
  "snd (warn ex_env Ban_game (Some ''cheating'') ex_moderator ex_user None None ex_warned_world)
     = Inl (AttributeError ''count'') \<and>
   committed (fst (warn ex_env Ban_game (Some ''cheating'') ex_moderator ex_user None None
      ex_warned_world))
     = committed ex_warned_world \<and>
   session (fst (warn ex_env Ban_game (Some ''cheating'') ex_moderator ex_user None None
      ex_warned_world))
     = committed ex_warned_world"
  by (rule warn_exception_rolls_back) (rule warn_try_raises_at_count)

section \<open>The threshold test\<close>




section \<open>A missing threshold row\<close>

text \<open>
  C5, as the code has it. With no threshold row for the action type, \<open>warn\<close> raises
  an \<open>AttributeError\<close> (the code has no exception kind of its own), commits nothing,
  leaves nothing pending and sends nothing; the lookup \<^verbatim>\<open>.first()\<close> on the threshold
  model yields \<^verbatim>\<open>None\<close>, whose \<^verbatim>\<open>.value\<close> raises: the default constant is not used.
\<close>

theorem warn_without_threshold:
  assumes "filter (\<lambda>t. threshold_action_type t = T) (thresholds (session s)) = []"
  shows "(\<exists>name. snd (warn e T rsn m u fin x s) = Inl (AttributeError name)) \<and>
         committed (fst (warn e T rsn m u fin x s)) = committed s \<and>
         session (fst (warn e T rsn m u fin x s)) = committed s \<and>
         outbox (fst (warn e T rsn m u fin x s)) = outbox s \<and>
         (case getattr_query (thresholds (session s)) threshold_model of
            Inl err \<Rightarrow> Inl err
          | Inr q \<Rightarrow>
              (case query_filter_by (\<lambda>t. threshold_action_type t = T) q of
                 Inl err \<Rightarrow> Inl err
               | Inr q' \<Rightarrow>
                   (case query_first q' of Inl err \<Rightarrow> Inl err | Inr t \<Rightarrow> getattr_value t)))
           = Inl (AttributeError ''value'')"
  using assms
  by (simp add: warn_as_written session_rollback_def threshold_model_def)

text \<open>
  An instance of C5: the empty store has no threshold row.
\<close>

theorem warn_without_threshold_witness:
  "(\<exists>name. snd (warn ex_env Ban_game (Some ''cheating'') ex_moderator ex_user None None
               ex_empty_world)
             = Inl (AttributeError name)) \<and>
   committed (fst (warn ex_env Ban_game (Some ''cheating'') ex_moderator ex_user None None
      ex_empty_world))
     = committed ex_empty_world \<and>
   session (fst (warn ex_env Ban_game (Some ''cheating'') ex_moderator ex_user None None
      ex_empty_world))
     = committed ex_empty_world \<and>
   outbox (fst (warn ex_env Ban_game (Some ''cheating'') ex_moderator ex_user None None
      ex_empty_world))
     = outbox ex_empty_world"
proof -
  have h: "filter (\<lambda>t. threshold_action_type t = Ban_game) (thresholds (session ex_empty_world)) = []"
    by (simp add: ex_empty_world_def ex_no_rows_def)
  show ?thesis
    using warn_without_threshold [OF h, of ex_env "Some ''cheating''" ex_moderator ex_user None None]
    by blast
qed

text \<open>
  C5 as stated fails: on the empty store the exception of \<open>warn\<close> is an
  \<open>AttributeError\<close>, not a \<open>ConfigurationError\<close>.
\<close>

theorem warn_without_threshold_counterexample:
  "thresholds (session ex_empty_world) = [] \<and>
   snd (warn ex_env Ban_game (Some ''cheating'') ex_moderator ex_user None None ex_empty_world)
     = Inl (AttributeError ''count'') \<and>
   snd (warn ex_env Ban_game (Some ''cheating'') ex_moderator ex_user None None ex_empty_world)
     \<noteq> Inl ConfigurationError"
  by (simp add: warn_as_written ex_empty_world_def ex_no_rows_def)

section \<open>The reason and the return value of moderate\<close>

text \<open>
  The store refuses a row without a reason.
\<close>

lemma missing_reason_is_refused: "\<exists>err. flush_error (new_action e k T None mid uid f x) = Some err"
  by (simp add: flush_error_def new_action_def)

text \<open>
  C6, as the code has it. Neither operation validates \<^verbatim>\<open>reason\<close>; both add the row
  to the session first. \<open>moderate\<close> with the empty reason, \<^verbatim>\<open>commit=True\<close> and a
  reachable user completes whenever the commit of the row succeeds: the row with the
  empty reason is committed and both notifications carry the empty message. With no
  reason (\<^verbatim>\<open>None\<close>) the commit of \<open>moderate\<close> raises: the row has been added to the
  session, nothing is committed and nothing is sent. Whatever the reason, the \<^verbatim>\<open>try\<close>
  body of \<open>warn\<close> runs with the warning added to the session.
\<close>

theorem reason_is_not_validated:
  "(session_commit (session_add_action
        (new_action e (next_id (actions (session s))) T (Some []) (remote_id m) (remote_id u) f x) s)
      = (s2, Inr ()) \<longrightarrow>
    moderate e T (Some []) m (u\<lparr>send_mail_raises := None, send_message_raises := None\<rparr>) x f
        True s
      = (s2\<lparr>outbox := outbox s @
              [Mail (remote_id u) ''You are moderated'' (Some []) (default_from_email e),
               Message (remote_id u) (Some [])]\<rparr>, Inr None) \<and>
    actions (committed s2) = actions (session s) @
      [new_action e (next_id (actions (session s))) T (Some []) (remote_id m) (remote_id u) f x]) \<and>
   (\<exists>err. moderate e T None m u x f True s
      = (session_add_action
           (new_action e (next_id (actions (session s))) T None (remote_id m) (remote_id u) f x) s,
         Inl err)) \<and>
   warnings (session (fst (warn_try e ModerationWarning T rsn m u fin x
      (session_add_warning
         (new_warning e (next_id (warnings (session s))) T rsn (remote_id m) (remote_id u) x) s))))
     = warnings (session s) @
         [new_warning e (next_id (warnings (session s))) T rsn (remote_id m) (remote_id u) x]"
proof -
  let ?u = "u\<lparr>send_mail_raises := None, send_message_raises := None\<rparr>"
  let ?obj = "new_action e (next_id (actions (session s))) T (Some []) (remote_id m) (remote_id u) f x"
  let ?s1 = "session_add_action ?obj s"
  let ?none = "new_action e (next_id (actions (session s))) T None (remote_id m) (remote_id u) f x"
  have 1: "session_commit ?s1 = (s2, Inr ()) \<longrightarrow>
    moderate e T (Some []) m ?u x f True s
      = (s2\<lparr>outbox := outbox s @
              [Mail (remote_id u) ''You are moderated'' (Some []) (default_from_email e),
               Message (remote_id u) (Some [])]\<rparr>, Inr None) \<and>
    actions (committed s2) = actions (session s) @ [?obj]"
  proof
    assume ok: "session_commit ?s1 = (s2, Inr ())"
    then have s2: "s2 = ?s1\<lparr>committed := session ?s1\<rparr>"
      by (rule session_commit_completes)
    have "moderate e T (Some []) m ?u x f True s
      = (s2\<lparr>outbox := outbox s @
              [Mail (remote_id u) ''You are moderated'' (Some []) (default_from_email e),
               Message (remote_id u) (Some [])]\<rparr>, Inr None)"
      using ok by (simp add: moderate_def Let_def send_email_def send_message_def s2
            session_add_action_def)
    moreover have "actions (committed s2) = actions (session s) @ [?obj]"
      by (simp add: s2 session_add_action_def)
    ultimately show "moderate e T (Some []) m ?u x f True s
      = (s2\<lparr>outbox := outbox s @
              [Mail (remote_id u) ''You are moderated'' (Some []) (default_from_email e),
               Message (remote_id u) (Some [])]\<rparr>, Inr None) \<and>
      actions (committed s2) = actions (session s) @ [?obj]"
      by (rule conjI)
  qed
  obtain err0 where "flush_error ?none = Some err0"
    using missing_reason_is_refused by blast
  then obtain err where
    "session_commit (session_add_action ?none s) = (session_add_action ?none s, Inl err)"
    using refused_row_fails_commit by blast
  then have "moderate e T None m u x f True s = (session_add_action ?none s, Inl err)"
    by (simp add: moderate_def Let_def)
  then have 2: "\<exists>err. moderate e T None m u x f True s = (session_add_action ?none s, Inl err)"
    by blast
  have 3: "warnings (session (fst (warn_try e ModerationWarning T rsn m u fin x
      (session_add_warning
         (new_warning e (next_id (warnings (session s))) T rsn (remote_id m) (remote_id u) x) s))))
     = warnings (session s) @
         [new_warning e (next_id (warnings (session s))) T rsn (remote_id m) (remote_id u) x]"
    by (simp add: warn_try_frame) (simp add: session_add_warning_def)
  show ?thesis
    using 1 2 3 by blast
qed

text \<open>
  An instance of C6: on the empty store the commit of the row with the empty reason
  succeeds.
\<close>

theorem reason_is_not_validated_witness:
  "moderate ex_env Ban_game (Some []) ex_moderator ex_user None None True ex_empty_world
     = (\<lparr>committed =
           \<lparr>actions = [new_action ex_env 1 Ban_game (Some []) 1 7 None None],
            warnings = [], thresholds = []\<rparr>,
         session =
           \<lparr>actions = [new_action ex_env 1 Ban_game (Some []) 1 7 None None],
            warnings = [], thresholds = []\<rparr>,
         outbox = [Mail 7 ''You are moderated'' (Some []) ''noreply@example.org'',
                   Message 7 (Some [])]\<rparr>, Inr None) \<and>
   actions (committed (fst (moderate ex_env Ban_game (Some []) ex_moderator ex_user None None True
      ex_empty_world)))
     = [new_action ex_env 1 Ban_game (Some []) 1 7 None None]"
proof -
  let ?s2 = "\<lparr>committed =
           \<lparr>actions = [new_action ex_env 1 Ban_game (Some []) 1 7 None None],
            warnings = [], thresholds = []\<rparr>,
         session =
           \<lparr>actions = [new_action ex_env 1 Ban_game (Some []) 1 7 None None],
            warnings = [], thresholds = []\<rparr>,
         outbox = []\<rparr>"
  have h: "session_commit (session_add_action
        (new_action ex_env (next_id (actions (session ex_empty_world))) Ban_game (Some [])
           (remote_id ex_moderator) (remote_id ex_user) None None) ex_empty_world)
      = (?s2, Inr ())"
    by (simp add: session_add_action_def session_commit_def List.map_filter_def flush_error_def
          integer_column_def string_512_column_def new_action_def next_id_def ex_empty_world_def
          ex_no_rows_def ex_user_def ex_moderator_def)
  have u: "ex_user\<lparr>send_mail_raises := None, send_message_raises := None\<rparr> = ex_user"
    by (simp add: ex_user_def)
  from reason_is_not_validated [of ex_env ex_empty_world Ban_game ex_moderator ex_user None None ?s2]
  have "moderate ex_env Ban_game (Some []) ex_moderator ex_user None None True ex_empty_world
      = (?s2\<lparr>outbox := outbox ex_empty_world @
              [Mail (remote_id ex_user) ''You are moderated'' (Some []) (default_from_email ex_env),
               Message (remote_id ex_user) (Some [])]\<rparr>, Inr None)"
    using h unfolding u by blast
  then show ?thesis
    by (simp add: ex_empty_world_def ex_user_def ex_env_def)
qed

text \<open>
  C6 as stated fails: \<open>moderate\<close> with the empty reason on the empty store completes,
  commits the row and sends both notifications; and with no reason the row is added to
  the session before the commit raises the store's \<open>IntegrityError\<close>.
\<close>

theorem moderate_empty_reason_counterexample:
  "actions (committed ex_empty_world) = [] \<and>
   snd (moderate ex_env Ban_game (Some []) ex_moderator ex_user None None True ex_empty_world)
     = Inr None \<and>
   actions (committed (fst (moderate ex_env Ban_game (Some []) ex_moderator ex_user None None True
      ex_empty_world)))
     = [new_action ex_env 1 Ban_game (Some []) 1 7 None None] \<and>
   outbox (fst (moderate ex_env Ban_game (Some []) ex_moderator ex_user None None True
      ex_empty_world))
     = [Mail 7 ''You are moderated'' (Some []) ''noreply@example.org'', Message 7 (Some [])] \<and>
   moderate ex_env Ban_game None ex_moderator ex_user None None True ex_empty_world
     = (session_add_action (new_action ex_env 1 Ban_game None 1 7 None None) ex_empty_world,
        Inl IntegrityError)"
proof -
  have "moderate ex_env Ban_game None ex_moderator ex_user None None True ex_empty_world
     = (session_add_action (new_action ex_env 1 Ban_game None 1 7 None None) ex_empty_world,
        Inl IntegrityError)"
    by (simp add: moderate_def Let_def session_add_action_def
        session_commit_def List.map_filter_def flush_error_def integer_column_def
        new_action_def next_id_def ex_empty_world_def ex_no_rows_def
        ex_user_def ex_moderator_def)
  then show ?thesis
    by (simp add: ex_moderate_empty_reason) (simp add: ex_empty_world_def ex_no_rows_def)
qed

text \<open>
  C7, as the code has it. \<open>moderate\<close> has no \<^verbatim>\<open>return\<close> statement: it never returns a
  record. Whenever it completes it has returned \<^verbatim>\<open>None\<close>, the created row is the last
  row of the session's action ledger, and the session is committed when \<^verbatim>\<open>commit\<close> is
  true (otherwise the committed tables are as before).
\<close>

theorem moderate_returns_none:
  "snd (moderate e T rsn m u x f c s) \<noteq> Inr (Some a) \<and>
   (moderate e T rsn m u x f c s = (s', Inr r) \<longrightarrow>
      r = None \<and>
      actions (session s') = actions (session s) @
        [new_action e (next_id (actions (session s))) T rsn (remote_id m) (remote_id u) f x] \<and>
      committed s' = (if c then session s' else committed s))"
proof -
  obtain s0 r0 where M: "moderate e T rsn m u x f c s = (s0, r0)"
    by (cases "moderate e T rsn m u x f c s")
  have "r0 \<noteq> Inr (Some a)"
    using moderate_completes [of e T rsn m u x f c s s0 "Some a"] M by auto
  then have 1: "snd (moderate e T rsn m u x f c s) \<noteq> Inr (Some a)"
    using M by simp
  have 2: "moderate e T rsn m u x f c s = (s', Inr r) \<longrightarrow>
      r = None \<and>
      actions (session s') = actions (session s) @
        [new_action e (next_id (actions (session s))) T rsn (remote_id m) (remote_id u) f x] \<and>
      committed s' = (if c then session s' else committed s)"
    using moderate_completes [of e T rsn m u x f c s s' r]
    by (simp add: session_add_action_def)
  show ?thesis
    using 1 2 by (rule conjI)
qed

text \<open>
  An instance of C7: a completed call on the empty store.
\<close>

theorem moderate_returns_none_witness:
  "actions (session (fst (moderate ex_env Ban_game (Some ''cheating'') ex_moderator ex_user None
      None True ex_empty_world)))
     = actions (session ex_empty_world) @
        [new_action ex_env (next_id (actions (session ex_empty_world))) Ban_game (Some ''cheating'')
           (remote_id ex_moderator) (remote_id ex_user) None None] \<and>
   committed (fst (moderate ex_env Ban_game (Some ''cheating'') ex_moderator ex_user None None True
      ex_empty_world))
     = session (fst (moderate ex_env Ban_game (Some ''cheating'') ex_moderator ex_user None None
      True ex_empty_world))"
proof -
  let ?M = "moderate ex_env Ban_game (Some ''cheating'') ex_moderator ex_user None None True
      ex_empty_world"
  have h: "?M = (fst ?M, Inr None)"
    by (simp add: ex_moderate_completes)
  from moderate_returns_none [where e = ex_env and T = Ban_game and rsn = "Some ''cheating''"
      and m = ex_moderator and u = ex_user and x = None and f = None and c = True
      and s = ex_empty_world and s' = "fst ?M" and r = None]
  have "None = None \<and>
      actions (session (fst ?M)) = actions (session ex_empty_world) @
        [new_action ex_env (next_id (actions (session ex_empty_world))) Ban_game (Some ''cheating'')
           (remote_id ex_moderator) (remote_id ex_user) None None] \<and>
      committed (fst ?M) = (if True then session (fst ?M) else committed ex_empty_world)"
    using h by blast
  then show ?thesis
    by simp
qed

text \<open>
  C7 as stated fails: a completed call of \<open>moderate\<close> returns \<^verbatim>\<open>None\<close>, while the
  created row is in the committed ledger.
\<close>

theorem moderate_returns_none_counterexample:
  "snd (moderate ex_env Ban_game (Some ''cheating'') ex_moderator ex_user None None True
      ex_empty_world)
     = Inr None \<and>
   actions (committed (fst (moderate ex_env Ban_game (Some ''cheating'') ex_moderator ex_user None
      None True ex_empty_world)))
     = [new_action ex_env 1 Ban_game (Some ''cheating'') 1 7 None None]"
  by (simp add: ex_moderate_completes)

section \<open>Escalation and the accumulated warnings\<close>

text \<open>
  C8. The spec has warnings accumulate after an escalation. In the code no call of
  \<open>warn\<close> completes: every call raises and leaves the committed tables as they were,
  so no action is ever created and the warnings never grow. On the store with two
  warnings and threshold 3 a first and a second call both raise and leave the store
  with its two warnings and no action.
\<close>

theorem warn_never_accumulates:
  "committed (fst (warn e T rsn m u fin x s)) = committed s \<and>
   (\<exists>err. snd (warn e T rsn m u fin x s) = Inl err) \<and>
   length (warnings (committed ex_warned_world)) = 2 \<and>
   actions (committed ex_warned_world) = [] \<and>
   warn ex_env Ban_game (Some ''cheating'') ex_moderator ex_user None None ex_warned_world
     = (ex_warned_world, Inl (AttributeError ''count'')) \<and>
   warn ex_env Ban_game (Some ''cheating'') ex_moderator ex_user None None
     (fst (warn ex_env Ban_game (Some ''cheating'') ex_moderator ex_user None None ex_warned_world))
     = (ex_warned_world, Inl (AttributeError ''count''))"
  by (simp add: warn_as_written session_rollback_def ex_warned_world_def ex_warned_rows_def)

text \<open>
  C10. \<^verbatim>\<open>finish_at\<close> is no column of a warning, and \<open>warn\<close> passes it on to
  \<^verbatim>\<open>cls.moderate\<close> only; but that call never creates an action: the result of \<open>warn\<close>
  does not depend on \<^verbatim>\<open>finish_at\<close> at all, the escalation from \<^verbatim>\<open>ModerationWarning\<close>
  raises \<open>AttributeError\<close>, and at the threshold (two prior warnings, threshold 3,
  \<^verbatim>\<open>finish_at\<close> given) the call raises and leaves the store without any action.
\<close>

theorem warn_never_forwards_finish_at:
  "warn e T rsn m u fin x s = warn e T rsn m u None x s \<and>
   escalate e ModerationWarning T rsn m u x fin s = (s, Inl (AttributeError ''moderate'')) \<and>
   warn ex_env Ban_game (Some ''cheating'') ex_moderator ex_user (Some 2000) None ex_warned_world
     = (ex_warned_world, Inl (AttributeError ''count'')) \<and>
   actions (committed ex_warned_world) = []"
  by (simp add: warn_as_written escalate_from_warning_class session_rollback_def
        ex_warned_world_def ex_warned_rows_def)

section \<open>turn on and turn off\<close>

text \<open>
  One call on the \<open>i\<close>-th object of a ledger changes \<^verbatim>\<open>is_active\<close> of that object
  in the session and nothing else there, and commits the session or leaves the committed
  tables alone; two updates of \<^verbatim>\<open>is_active\<close> at one position are one.
\<close>

lemma call_on_action_session:
  "session (fst (call_on_action i t s))
     = (session s)\<lparr>actions := (actions (session s))
          [i := (actions (session s) ! i)\<lparr>is_active := is_active (toggle_self t (actions (session s) ! i))\<rparr>]\<rparr>"
  by (cases t)
     (simp_all add: call_on_action_def save_def session_commit_frame turn_on_def turn_off_def)

lemma call_on_warning_session:
  "session (fst (call_on_warning i t s))
     = (session s)\<lparr>warnings := (warnings (session s))
          [i := (warnings (session s) ! i)\<lparr>is_active := is_active (toggle_self t (warnings (session s) ! i))\<rparr>]\<rparr>"
  by (cases t)
     (simp_all add: call_on_warning_def save_def session_commit_frame turn_on_def turn_off_def)

lemma update_twice_is_active:
  "xs[i := (xs[i := (xs ! i)\<lparr>is_active := c\<rparr>] ! i)\<lparr>is_active := b\<rparr>]
     = xs[i := (xs ! i)\<lparr>is_active := b\<rparr>]"
  by (cases "i < length xs") (simp_all add: list_update_beyond)

lemma calls_on_action_session:
  "\<exists>b. session (calls_on_action i ts s)
     = (session s)\<lparr>actions := (actions (session s))[i := (actions (session s) ! i)\<lparr>is_active := b\<rparr>]\<rparr>"
proof (induction ts arbitrary: s)
  case Nil
  have "(session s)\<lparr>actions := (actions (session s))
           [i := (actions (session s) ! i)\<lparr>is_active := is_active (actions (session s) ! i)\<rparr>]\<rparr>
        = session s"
    by simp
  then show ?case
    by (metis calls_on_action.simps(1))
next
  case (Cons t ts)
  let ?s1 = "fst (call_on_action i t s)"
  from Cons.IH [of ?s1] obtain b where
    b: "session (calls_on_action i ts ?s1)
      = (session ?s1)\<lparr>actions := (actions (session ?s1))
          [i := (actions (session ?s1) ! i)\<lparr>is_active := b\<rparr>]\<rparr>"
    by blast
  have "session (calls_on_action i (t # ts) s)
      = (session s)\<lparr>actions := (actions (session s))[i := (actions (session s) ! i)\<lparr>is_active := b\<rparr>]\<rparr>"
    using b by (simp add: call_on_action_session update_twice_is_active)
  then show ?case
    by blast
qed

lemma calls_on_warning_session:
  "\<exists>b. session (calls_on_warning i ts s)
     = (session s)\<lparr>warnings := (warnings (session s))[i := (warnings (session s) ! i)\<lparr>is_active := b\<rparr>]\<rparr>"
proof (induction ts arbitrary: s)
  case Nil
  have "(session s)\<lparr>warnings := (warnings (session s))
           [i := (warnings (session s) ! i)\<lparr>is_active := is_active (warnings (session s) ! i)\<rparr>]\<rparr>
        = session s"
    by simp
  then show ?case
    by (metis calls_on_warning.simps(1))
next
  case (Cons t ts)
  let ?s1 = "fst (call_on_warning i t s)"
  from Cons.IH [of ?s1] obtain b where
    b: "session (calls_on_warning i ts ?s1)
      = (session ?s1)\<lparr>warnings := (warnings (session ?s1))
          [i := (warnings (session ?s1) ! i)\<lparr>is_active := b\<rparr>]\<rparr>"
    by blast
  have "session (calls_on_warning i (t # ts) s)
      = (session s)\<lparr>warnings := (warnings (session s))[i := (warnings (session s) ! i)\<lparr>is_active := b\<rparr>]\<rparr>"
    using b by (simp add: call_on_warning_session update_twice_is_active)
  then show ?case
    by blast
qed

lemma calls_on_action_outbox: "outbox (calls_on_action i ts s) = outbox s"
  by (induction ts arbitrary: s)
     (simp_all add: call_on_action_def save_def session_commit_frame)

lemma calls_on_warning_outbox: "outbox (calls_on_warning i ts s) = outbox s"
  by (induction ts arbitrary: s)
     (simp_all add: call_on_warning_def save_def session_commit_frame)

lemma call_on_action_committed:
  "committed (fst (call_on_action i t s)) = committed s \<or>
   committed (fst (call_on_action i t s)) = session (fst (call_on_action i t s))"
  using session_commit_cases
    [of "s\<lparr>session := (session s)\<lparr>actions :=
            (actions (session s))[i := toggle_self t (actions (session s) ! i)]\<rparr>\<rparr>"]
  by (auto simp: call_on_action_def save_def)

lemma call_on_warning_committed:
  "committed (fst (call_on_warning i t s)) = committed s \<or>
   committed (fst (call_on_warning i t s)) = session (fst (call_on_warning i t s))"
  using session_commit_cases
    [of "s\<lparr>session := (session s)\<lparr>warnings :=
            (warnings (session s))[i := toggle_self t (warnings (session s) ! i)]\<rparr>\<rparr>"]
  by (auto simp: call_on_warning_def save_def)

lemma calls_on_action_committed:
  "committed (calls_on_action i ts s) = committed s \<or>
   (\<exists>ts'. prefix ts' ts \<and> committed (calls_on_action i ts s) = session (calls_on_action i ts' s))"
proof (induction ts arbitrary: s)
  case Nil
  then show ?case by simp
next
  case (Cons t ts)
  let ?s1 = "fst (call_on_action i t s)"
  from Cons.IH [of ?s1] show ?case
  proof
    assume a: "committed (calls_on_action i ts ?s1) = committed ?s1"
    from call_on_action_committed [of i t s] show ?thesis
    proof
      assume "committed ?s1 = committed s"
      then show ?thesis using a by simp
    next
      assume "committed ?s1 = session ?s1"
      then have "prefix [t] (t # ts) \<and>
          committed (calls_on_action i (t # ts) s) = session (calls_on_action i [t] s)"
        using a by simp
      then show ?thesis by blast
    qed
  next
    assume "\<exists>ts'. prefix ts' ts \<and>
       committed (calls_on_action i ts ?s1) = session (calls_on_action i ts' ?s1)"
    then obtain ts' where p: "prefix ts' ts"
      and c: "committed (calls_on_action i ts ?s1) = session (calls_on_action i ts' ?s1)"
      by blast
    have "prefix (t # ts') (t # ts) \<and>
       committed (calls_on_action i (t # ts) s) = session (calls_on_action i (t # ts') s)"
      using p c by simp
    then show ?thesis by blast
  qed
qed

lemma calls_on_warning_committed:
  "committed (calls_on_warning i ts s) = committed s \<or>
   (\<exists>ts'. prefix ts' ts \<and> committed (calls_on_warning i ts s) = session (calls_on_warning i ts' s))"
proof (induction ts arbitrary: s)
  case Nil
  then show ?case by simp
next
  case (Cons t ts)
  let ?s1 = "fst (call_on_warning i t s)"
  from Cons.IH [of ?s1] show ?case
  proof
    assume a: "committed (calls_on_warning i ts ?s1) = committed ?s1"
    from call_on_warning_committed [of i t s] show ?thesis
    proof
      assume "committed ?s1 = committed s"
      then show ?thesis using a by simp
    next
      assume "committed ?s1 = session ?s1"
      then have "prefix [t] (t # ts) \<and>
          committed (calls_on_warning i (t # ts) s) = session (calls_on_warning i [t] s)"
        using a by simp
      then show ?thesis by blast
    qed
  next
    assume "\<exists>ts'. prefix ts' ts \<and>
       committed (calls_on_warning i ts ?s1) = session (calls_on_warning i ts' ?s1)"
    then obtain ts' where p: "prefix ts' ts"
      and c: "committed (calls_on_warning i ts ?s1) = session (calls_on_warning i ts' ?s1)"
      by blast
    have "prefix (t # ts') (t # ts) \<and>
       committed (calls_on_warning i (t # ts) s) = session (calls_on_warning i (t # ts') s)"
      using p c by simp
    then show ?thesis by blast
  qed
qed

text \<open>
  C9. After any sequence of \<^verbatim>\<open>turn_on\<close> and \<^verbatim>\<open>turn_off\<close> calls on the \<open>i\<close>-th action
  (or warning), the session's tables are those before the calls except that the
  \<open>i\<close>-th row of that ledger has some value of \<^verbatim>\<open>is_active\<close>: every other field of the
  row, every other row, the other ledger and the thresholds are unchanged, and nothing
  is sent. The committed tables are those before the calls, or the session as it was
  right after one of the calls.
\<close>

theorem toggles_change_only_is_active:
  "(\<exists>b. session (calls_on_action i ts s)
      = (session s)\<lparr>actions :=
           (actions (session s))[i := (actions (session s) ! i)\<lparr>is_active := b\<rparr>]\<rparr>) \<and>
   (\<exists>b. session (calls_on_warning i ts s)
      = (session s)\<lparr>warnings :=
           (warnings (session s))[i := (warnings (session s) ! i)\<lparr>is_active := b\<rparr>]\<rparr>) \<and>
   outbox (calls_on_action i ts s) = outbox s \<and>
   outbox (calls_on_warning i ts s) = outbox s \<and>
   (committed (calls_on_action i ts s) = committed s \<or>
    (\<exists>ts'. prefix ts' ts \<and>
       committed (calls_on_action i ts s) = session (calls_on_action i ts' s))) \<and>
   (committed (calls_on_warning i ts s) = committed s \<or>
    (\<exists>ts'. prefix ts' ts \<and>
       committed (calls_on_warning i ts s) = session (calls_on_warning i ts' s)))"
  using calls_on_action_session [of i ts s] calls_on_warning_session [of i ts s]
    calls_on_action_committed [of i ts s] calls_on_warning_committed [of i ts s]
  by (simp add: calls_on_action_outbox calls_on_warning_outbox)

end
